theory Spec2Isabelle
  imports Complex_Main
begin

section \<open>Data model (listings/models.py)\<close>

text \<open>
  Calendar dates (\<^verbatim>\<open>DateField\<close>) are day ordinals, so the difference of two dates is
  \<^verbatim>\<open>(end_date - start_date).days\<close>.  Money (\<^verbatim>\<open>DecimalField(decimal_places=2)\<close>) is an
  integer number of hundredths: 100.00 is \<open>10000\<close>.  Primary keys (UUIDs) and user
  references are natural numbers.  The value of \<^verbatim>\<open>timezone.now().date()\<close> is the
  parameter \<open>today\<close> of every function that reads the clock.
\<close>

datatype status = Pending | Confirmed | Canceled

record listing =
  listing_id :: nat
  pricepernight :: int

record booking =
  booking_id :: nat
  property :: nat
  user :: nat
  start_date :: int
  end_date :: int
  total_price :: int
  status :: status

record review =
  review_id :: nat
  review_property :: nat
  review_user :: nat
  rating :: int
  comment :: string

text \<open>The database: one table per model.\<close>

record store =
  listings :: "listing list"
  bookings :: "booking list"
  reviews :: "review list"

text \<open>
  What an operation can raise.  A \<^verbatim>\<open>ValidationError\<close> carries the kinds of the errors it
  reports; the other exceptions are Python's and the ORM's own.
\<close>

datatype error =
    InvalidRange | PastDate | PropertyUnavailable
  | RatingOutOfRange | DuplicateReview | NoEligibleStay
  | NotFound | Required | InvalidField

datatype exn =
    ValidationError "error list"
  | TypeError | AttributeError | DoesNotExist | IntegrityError

subsection \<open>Listing\<close>

text \<open>\<^verbatim>\<open>self.reviews.all()\<close>: the reviews whose foreign key is this listing.\<close>

definition listing_reviews :: "store \<Rightarrow> listing \<Rightarrow> review list" where
  "listing_reviews s l = filter (\<lambda>r. review_property r = listing_id l) (reviews s)"

text \<open>\<^verbatim>\<open>self.bookings\<close>: the bookings whose foreign key is this listing.\<close>

definition listing_bookings :: "store \<Rightarrow> listing \<Rightarrow> booking list" where
  "listing_bookings s l = filter (\<lambda>b. property b = listing_id l) (bookings s)"



definition get_total_reviews :: "store \<Rightarrow> listing \<Rightarrow> nat" where
  "get_total_reviews s l = length (listing_reviews s l)"

text \<open>
  \<^verbatim>\<open>Listing.is_available\<close>: the conflicting bookings are those of this listing with
  \<^verbatim>\<open>start_date__lte=end_date\<close>, \<^verbatim>\<open>end_date__gte=start_date\<close> and status pending or
  confirmed; the listing is available when there is none.
\<close>

definition conflicting_bookings :: "store \<Rightarrow> listing \<Rightarrow> int \<Rightarrow> int \<Rightarrow> booking list" where
  "conflicting_bookings s l sd ed =
     filter (\<lambda>b. (start_date b \<le> ed \<and> end_date b \<ge> sd) \<and> status b \<in> {Pending, Confirmed})
       (listing_bookings s l)"

definition is_available :: "store \<Rightarrow> listing \<Rightarrow> int \<Rightarrow> int \<Rightarrow> bool" where
  "is_available s l sd ed = (conflicting_bookings s l sd ed = [])"

subsection \<open>Booking\<close>

text \<open>\<^verbatim>\<open>self.property\<close>: the listing row the foreign key points to, if there is one.\<close>

definition get_property :: "store \<Rightarrow> booking \<Rightarrow> listing option" where
  "get_property s b = find (\<lambda>l. listing_id l = property b) (listings s)"


text \<open>
  \<^verbatim>\<open>calculate_total_price\<close>: \<^verbatim>\<open>nights * self.property.pricepernight\<close>; following a
  dangling foreign key raises \<^verbatim>\<open>DoesNotExist\<close>.
\<close>

definition calculate_total_price :: "store \<Rightarrow> booking \<Rightarrow> exn + int" where
  "calculate_total_price s b =
     (let nights = end_date b - start_date b
      in case get_property s b of
           None \<Rightarrow> Inl DoesNotExist
         | Some l \<Rightarrow> Inr (nights * pricepernight l))"

definition can_cancel :: "int \<Rightarrow> booking \<Rightarrow> bool" where
  "can_cancel today b = (status b \<in> {Pending, Confirmed} \<and> start_date b > today)"

text \<open>
  \<^verbatim>\<open>Booking.clean\<close>.  \<open>adding\<close> is \<^verbatim>\<open>self._state.adding\<close>.  When the listing is not
  available and the booking is being updated, the source evaluates
  \<^verbatim>\<open>Booking.objects.filter(booking_id=self.booking_id, ...)\<close>.  The model \<^verbatim>\<open>Booking\<close>
  declares the fields \<^verbatim>\<open>id, property, user, start_date, end_date, total_price, status,
  created_at\<close> and no \<^verbatim>\<open>booking_id\<close> (the record field \<open>booking_id\<close> here stands for
  \<^verbatim>\<open>id\<close>), so reading \<^verbatim>\<open>self.booking_id\<close> raises \<^verbatim>\<open>AttributeError\<close> before any
  query is made; \<^verbatim>\<open>or\<close> evaluates it only when \<open>adding\<close> is false.
\<close>

definition booking_clean :: "int \<Rightarrow> store \<Rightarrow> bool \<Rightarrow> booking \<Rightarrow> exn + unit" where
  "booking_clean today s adding b =
     (if end_date b \<le> start_date b then Inl (ValidationError [InvalidRange])
      else if start_date b < today then Inl (ValidationError [PastDate])
      else case get_property s b of
             None \<Rightarrow> Inl DoesNotExist
           | Some l \<Rightarrow>
               if \<not> is_available s l (start_date b) (end_date b)
               then (if adding then Inl (ValidationError [PropertyUnavailable])
                     else Inl AttributeError)
               else Inr ())"

text \<open>
  The validators declared on the fields: \<^verbatim>\<open>total_price\<close> has
  \<^verbatim>\<open>MinValueValidator(0.01)\<close> and at most ten digits, two of them decimals.
\<close>

definition booking_clean_fields :: "booking \<Rightarrow> error list" where
  "booking_clean_fields b =
     (if total_price b < 1 \<or> total_price b > 9999999999 then [InvalidField] else [])"

text \<open>
  \<^verbatim>\<open>full_clean\<close> of the framework: it runs the field validators and \<^verbatim>\<open>clean\<close>, collects
  their validation errors and raises them together; any other exception of \<^verbatim>\<open>clean\<close>
  propagates as it is.  The two check constraints of \<^verbatim>\<open>Meta\<close> (end after start,
  positive price) are implied by the first test of \<^verbatim>\<open>clean\<close> and by the validator.
\<close>

definition booking_full_clean :: "int \<Rightarrow> store \<Rightarrow> bool \<Rightarrow> booking \<Rightarrow> exn + unit" where
  "booking_full_clean today s adding b =
     (case booking_clean today s adding b of
        Inl (ValidationError es) \<Rightarrow> Inl (ValidationError (booking_clean_fields b @ es))
      | Inl e \<Rightarrow> Inl e
      | Inr u \<Rightarrow>
          if booking_clean_fields b = [] then Inr ()
          else Inl (ValidationError (booking_clean_fields b)))"

text \<open>
  \<^verbatim>\<open>super().save()\<close>: an insert when adding (a second row with the same primary key is
  an \<^verbatim>\<open>IntegrityError\<close>); otherwise an update of the row with this primary key, and an
  insert when there is no such row.
\<close>

definition write_booking :: "store \<Rightarrow> bool \<Rightarrow> booking \<Rightarrow> exn + store" where
  "write_booking s adding b =
     (if booking_id b \<in> set (map booking_id (bookings s))
      then (if adding then Inl IntegrityError
            else Inr (s\<lparr>bookings :=
                     map (\<lambda>r. if booking_id r = booking_id b then b else r) (bookings s)\<rparr>))
      else Inr (s\<lparr>bookings := bookings s @ [b]\<rparr>))"

text \<open>
  \<^verbatim>\<open>Booking.save\<close>: \<^verbatim>\<open>self.full_clean()\<close>, then \<^verbatim>\<open>super().save()\<close>.  The result is the
  exception raised, or nothing, paired with the store afterwards.
\<close>

definition booking_save :: "int \<Rightarrow> store \<Rightarrow> bool \<Rightarrow> booking \<Rightarrow> (exn + unit) \<times> store" where
  "booking_save today s adding b =
     (case booking_full_clean today s adding b of
        Inl e \<Rightarrow> (Inl e, s)
      | Inr u \<Rightarrow>
          (case write_booking s adding b of
             Inl e \<Rightarrow> (Inl e, s)
           | Inr s' \<Rightarrow> (Inr (), s')))"

subsection \<open>Review\<close>








text \<open>\<^verbatim>\<open>default=uuid.uuid4\<close>: a primary key that no row of the table has.\<close>

definition new_id :: "nat list \<Rightarrow> nat" where
  "new_id ids = Suc (foldr max ids 0)"

section \<open>Serializers (listings/serializers.py) and views (listings/views.py)\<close>

subsection \<open>BookingSerializer\<close>

text \<open>
  The writable fields of the serializer: \<^verbatim>\<open>property, user, start_date, end_date,
  status\<close> (\<^verbatim>\<open>total_price\<close> and \<^verbatim>\<open>created_at\<close> are read-only).  A key that is absent
  from the dictionary is \<open>None\<close>, which is what \<^verbatim>\<open>data.get\<close> returns for it.  In a
  request the property is a primary key; in \<^verbatim>\<open>validated_data\<close> it is the listing.
\<close>

record 'p booking_data =
  data_property :: "'p option"
  data_user :: "nat option"
  data_start_date :: "int option"
  data_end_date :: "int option"
  data_status :: "status option"

text \<open>
  Field validation of the framework, before \<^verbatim>\<open>validate\<close> is called: the property must
  be the key of a listing, and unless the update is partial the required fields
  (\<^verbatim>\<open>property\<close>, \<^verbatim>\<open>user\<close>, and by \<^verbatim>\<open>extra_kwargs\<close> the two dates) must be there.
\<close>

definition booking_to_internal_value ::
    "store \<Rightarrow> bool \<Rightarrow> nat booking_data \<Rightarrow> exn + listing booking_data" where
  "booking_to_internal_value s partial d =
     (let errs =
            (case data_property d of
               None \<Rightarrow> if partial then [] else [Required]
             | Some p \<Rightarrow>
                 if find (\<lambda>l. listing_id l = p) (listings s) = None then [NotFound] else [])
          @ (if \<not> partial \<and> data_user d = None then [Required] else [])
          @ (if \<not> partial \<and> data_start_date d = None then [Required] else [])
          @ (if \<not> partial \<and> data_end_date d = None then [Required] else [])
      in if errs \<noteq> [] then Inl (ValidationError errs)
         else Inr \<lparr>data_property =
                     (case data_property d of
                        None \<Rightarrow> None
                      | Some p \<Rightarrow> find (\<lambda>l. listing_id l = p) (listings s)),
                   data_user = data_user d,
                   data_start_date = data_start_date d,
                   data_end_date = data_end_date d,
                   data_status = data_status d\<rparr>)"

text \<open>
  \<^verbatim>\<open>BookingSerializer.validate\<close>.  Comparing a date with \<^verbatim>\<open>None\<close> by \<^verbatim>\<open><=\<close> is a
  \<^verbatim>\<open>TypeError\<close>.
\<close>

definition booking_validate ::
    "int \<Rightarrow> store \<Rightarrow> listing booking_data \<Rightarrow> exn + listing booking_data" where
  "booking_validate today s d =
     (case (data_start_date d, data_end_date d) of
        (Some sd, Some ed) \<Rightarrow>
          if ed \<le> sd then Inl (ValidationError [InvalidRange])
          else if sd < today then Inl (ValidationError [PastDate])
          else (case data_property d of
                  Some l \<Rightarrow>
                    if \<not> is_available s l sd ed
                    then Inl (ValidationError [PropertyUnavailable])
                    else Inr d
                | None \<Rightarrow> Inr d)
      | _ \<Rightarrow> Inl TypeError)"

text \<open>
  \<^verbatim>\<open>BookingSerializer.create\<close>: the user defaults to the user of the request, the
  booking is built from the validated data (status \<^verbatim>\<open>pending\<close> by default, a new
  primary key), its total price is computed and it is saved.  Subtracting dates of
  which one is \<^verbatim>\<open>None\<close> is a \<^verbatim>\<open>TypeError\<close>; a booking without listing has no
  \<^verbatim>\<open>self.property\<close>.  The result is the exception or the booking.
\<close>

definition booking_create ::
    "int \<Rightarrow> store \<Rightarrow> nat \<Rightarrow> listing booking_data \<Rightarrow> (exn + booking) \<times> store" where
  "booking_create today s request_user d =
     (let u = (case data_user d of None \<Rightarrow> request_user | Some v \<Rightarrow> v)
      in case (data_start_date d, data_end_date d) of
           (Some sd, Some ed) \<Rightarrow>
             (case data_property d of
                None \<Rightarrow> (Inl DoesNotExist, s)
              | Some l \<Rightarrow>
                  (let b0 = \<lparr>booking_id = new_id (map booking_id (bookings s)),
                            property = listing_id l, user = u,
                            start_date = sd, end_date = ed, total_price = 0,
                            status = (case data_status d of None \<Rightarrow> Pending | Some st \<Rightarrow> st)\<rparr>
                   in case calculate_total_price s b0 of
                        Inl e \<Rightarrow> (Inl e, s)
                      | Inr p \<Rightarrow>
                          (let b = b0\<lparr>total_price := p\<rparr>
                           in case booking_save today s True b of
                                (Inl e, s') \<Rightarrow> (Inl e, s')
                              | (Inr u, s') \<Rightarrow> (Inr b, s'))))
         | _ \<Rightarrow> (Inl TypeError, s))"

text \<open>
  \<^verbatim>\<open>BookingSerializer.update\<close>: \<^verbatim>\<open>property\<close> and \<^verbatim>\<open>user\<close> are popped, the remaining
  keys are set on the instance, the total price is recomputed if one of the dates is
  among them, and the instance is saved.
\<close>

definition booking_update ::
    "int \<Rightarrow> store \<Rightarrow> booking \<Rightarrow> listing booking_data \<Rightarrow> (exn + booking) \<times> store" where
  "booking_update today s instance d =
     (let d1 = d\<lparr>data_property := None, data_user := None\<rparr>;
          i1 = (case data_start_date d1 of None \<Rightarrow> instance | Some v \<Rightarrow> instance\<lparr>start_date := v\<rparr>);
          i2 = (case data_end_date d1 of None \<Rightarrow> i1 | Some v \<Rightarrow> i1\<lparr>end_date := v\<rparr>);
          i3 = (case data_status d1 of None \<Rightarrow> i2 | Some v \<Rightarrow> i2\<lparr>status := v\<rparr>)
      in case (if data_start_date d1 \<noteq> None \<or> data_end_date d1 \<noteq> None
               then map_sum id (\<lambda>p. i3\<lparr>total_price := p\<rparr>) (calculate_total_price s i3)
               else Inr i3) of
           Inl e \<Rightarrow> (Inl e, s)
         | Inr i4 \<Rightarrow>
             (case booking_save today s False i4 of
                (Inl e, s') \<Rightarrow> (Inl e, s')
              | (Inr u, s') \<Rightarrow> (Inr i4, s')))"

subsection \<open>BookingViewSet\<close>

text \<open>
  The create action: field validation, \<^verbatim>\<open>validate\<close>, then \<^verbatim>\<open>perform_create\<close>, which
  calls \<^verbatim>\<open>serializer.save(user=self.request.user)\<close> and so overrides the user of the
  validated data before \<^verbatim>\<open>create\<close> runs.
\<close>

definition create_booking ::
    "int \<Rightarrow> store \<Rightarrow> nat \<Rightarrow> nat booking_data \<Rightarrow> (exn + booking) \<times> store" where
  "create_booking today s request_user d =
     (case booking_to_internal_value s False d of
        Inl e \<Rightarrow> (Inl e, s)
      | Inr v \<Rightarrow>
          (case booking_validate today s v of
             Inl e \<Rightarrow> (Inl e, s)
           | Inr v' \<Rightarrow> booking_create today s request_user (v'\<lparr>data_user := Some request_user\<rparr>)))"

text \<open>
  The update actions (\<open>partial\<close> for PATCH): the instance is the row with the given
  primary key, then field validation, \<^verbatim>\<open>validate\<close> and \<^verbatim>\<open>update\<close>.
\<close>

definition update_booking ::
    "int \<Rightarrow> store \<Rightarrow> bool \<Rightarrow> nat \<Rightarrow> nat booking_data \<Rightarrow> (exn + booking) \<times> store" where
  "update_booking today s partial pk d =
     (case find (\<lambda>b. booking_id b = pk) (bookings s) of
        None \<Rightarrow> (Inl (ValidationError [NotFound]), s)
      | Some instance \<Rightarrow>
          (case booking_to_internal_value s partial d of
             Inl e \<Rightarrow> (Inl e, s)
           | Inr v \<Rightarrow>
               (case booking_validate today s v of
                  Inl e \<Rightarrow> (Inl e, s)
                | Inr v' \<Rightarrow> booking_update today s instance v')))"

text \<open>The destroy action deletes the row with the given primary key.\<close>

definition destroy_booking :: "store \<Rightarrow> nat \<Rightarrow> store" where
  "destroy_booking s pk = s\<lparr>bookings := filter (\<lambda>b. booking_id b \<noteq> pk) (bookings s)\<rparr>"

text \<open>
  The requests that write bookings, each with the date on which it is served.  A
  cancellation is an update whose data set the status to \<^verbatim>\<open>canceled\<close>.  The last
  one is a call of \<^verbatim>\<open>Booking.save\<close> from outside the serializer, as
  \<^verbatim>\<open>Booking.objects.create\<close> in the seed command makes (\<open>adding\<close> true).
\<close>

datatype request =
    CreateBooking int nat "nat booking_data"
  | UpdateBooking int bool nat "nat booking_data"
  | DestroyBooking nat
  | SaveBooking int bool booking

fun serve :: "store \<Rightarrow> request \<Rightarrow> store" where
  "serve s (CreateBooking today request_user d) = snd (create_booking today s request_user d)"
| "serve s (UpdateBooking today partial pk d) = snd (update_booking today s partial pk d)"
| "serve s (DestroyBooking pk) = destroy_booking s pk"
| "serve s (SaveBooking today adding b) = snd (booking_save today s adding b)"

definition serve_all :: "store \<Rightarrow> request list \<Rightarrow> store" where
  "serve_all s rs = foldl serve s rs"

subsection \<open>ReviewSerializer\<close>







section \<open>Predicates of the specification\<close>

subsection \<open>Date ranges of the specification\<close>

text \<open>
  The half-open overlap of the specification, on ranges given as (start, end) pairs:
  two ranges overlap iff \<^verbatim>\<open>a.start < b.end AND b.start < a.end\<close>.
\<close>

definition overlaps :: "int \<times> int \<Rightarrow> int \<times> int \<Rightarrow> bool" where
  "overlaps a b = (fst a < snd b \<and> fst b < snd a)"

definition date_range :: "booking \<Rightarrow> int \<times> int" where
  "date_range b = (start_date b, end_date b)"

definition active :: "booking \<Rightarrow> bool" where
  "active b = (status b = Pending \<or> status b = Confirmed)"

subsection \<open>Invariants of the store\<close>

text \<open>Primary keys are unique.\<close>

definition ids_distinct :: "store \<Rightarrow> bool" where
  "ids_distinct s = distinct (map booking_id (bookings s))"

text \<open>
  No double booking: two distinct bookings of one property that are both pending or
  confirmed have date ranges that do not overlap.
\<close>

definition no_double_booking :: "store \<Rightarrow> bool" where
  "no_double_booking s =
     (\<forall>a \<in> set (bookings s). \<forall>b \<in> set (bookings s).
        booking_id a \<noteq> booking_id b \<and> property a = property b \<and> active a \<and> active b
          \<longrightarrow> \<not> overlaps (date_range a) (date_range b))"

definition consistent :: "store \<Rightarrow> bool" where
  "consistent s = (ids_distinct s \<and> no_double_booking s)"






subsection \<open>Example data\<close>

text \<open>
  One listing at 100.00 a night; a confirmed stay of user 7 from day 10 to day 12; the
  stores with and without that stay.
\<close>

definition villa :: listing where
  "villa = \<lparr>listing_id = 1, pricepernight = 10000\<rparr>"

definition stay_10_12 :: booking where
  "stay_10_12 = \<lparr>booking_id = 1, property = 1, user = 7, start_date = 10, end_date = 12,
                 total_price = 20000, status = Confirmed\<rparr>"

definition empty_store :: store where
  "empty_store = \<lparr>listings = [villa], bookings = [], reviews = []\<rparr>"

definition one_stay_store :: store where
  "one_stay_store = \<lparr>listings = [villa], bookings = [stay_10_12], reviews = []\<rparr>"


text \<open>
  Requests: three nights on the listing from day 20; updates of the stay from day 10 to
  day 12 that shrink it, keep it, and move it (naming another listing and another user);
  a second listing; a sequence of requests; a review of the stay.
\<close>

definition three_nights_request :: "nat booking_data" where
  "three_nights_request =
     \<lparr>data_property = Some 1, data_user = Some 8, data_start_date = Some 20,
      data_end_date = Some 23, data_status = None\<rparr>"


definition shrink_request :: "nat booking_data" where
  "shrink_request =
     \<lparr>data_property = Some 1, data_user = Some 7, data_start_date = Some 10,
      data_end_date = Some 11, data_status = None\<rparr>"

definition keep_request :: "nat booking_data" where
  "keep_request =
     \<lparr>data_property = Some 1, data_user = Some 7, data_start_date = Some 10,
      data_end_date = Some 12, data_status = None\<rparr>"



definition busy_day :: "request list" where
  "busy_day =
     [CreateBooking 5 8 three_nights_request,
      CreateBooking 5 9 (three_nights_request\<lparr>data_start_date := Some 22,
                                              data_end_date := Some 25\<rparr>),
      CreateBooking 6 9 (three_nights_request\<lparr>data_start_date := Some 24,
                                              data_end_date := Some 25\<rparr>),
      UpdateBooking 6 True 1 \<lparr>data_property = None, data_user = None,
                              data_start_date = None, data_end_date = None,
                              data_status = Some Canceled\<rparr>,
      UpdateBooking 6 False 2 (three_nights_request\<lparr>data_start_date := Some 23,
                                                    data_end_date := Some 26\<rparr>),
      SaveBooking 6 True (stay_10_12\<lparr>booking_id := 3, start_date := 26,
                                     end_date := 28\<rparr>),
      DestroyBooking 7]"



lemmas booking_flow_defs = create_booking_def update_booking_def booking_to_internal_value_def
  booking_validate_def booking_create_def booking_update_def booking_save_def
  booking_full_clean_def booking_clean_def booking_clean_fields_def write_booking_def
  calculate_total_price_def get_property_def is_available_def conflicting_bookings_def
  listing_bookings_def new_id_def Let_def


section \<open>Availability\<close>

lemma is_available_iff:
  "is_available s l sd ed \<longleftrightarrow>
     \<not> (\<exists>b \<in> set (bookings s). property b = listing_id l \<and> active b
           \<and> start_date b \<le> ed \<and> sd \<le> end_date b)"
  by (auto simp: is_available_def conflicting_bookings_def listing_bookings_def active_def
        filter_empty_conv)

lemma closed_of_overlaps:
  "overlaps (date_range b) (sd, ed) \<Longrightarrow> start_date b \<le> ed \<and> sd \<le> end_date b"
  by (simp add: overlaps_def date_range_def)

text \<open>
  Claim C3, as the specification states it, fails: with a confirmed stay from day 10 to
  day 12 on the listing, the range from day 12 to day 15 does not overlap that stay
  under half-open semantics, and \<open>is_available\<close> still reports the listing unavailable.
\<close>

theorem is_available_back_to_back_counterexample:
  "\<not> is_available one_stay_store villa 12 15
   \<and> \<not> overlaps (date_range stay_10_12) (12, 15)"
  by (simp add: is_available_def conflicting_bookings_def listing_bookings_def overlaps_def
        date_range_def one_stay_store_def villa_def stay_10_12_def)

text \<open>
  Claim C3, amended: \<open>is_available\<close> is true iff no pending or confirmed booking of the
  listing overlaps the range as a closed interval (\<open>b.start \<le> end\<close> and
  \<open>start \<le> b.end\<close>).  So an available range overlaps no active booking under half-open
  semantics, but a valid range that starts on the end date of an active booking
  (back-to-back stays) is reported unavailable.
\<close>

theorem is_available_closed_interval:
  "(is_available s l sd ed \<longleftrightarrow>
      \<not> (\<exists>b \<in> set (bookings s). property b = listing_id l \<and> active b
            \<and> start_date b \<le> ed \<and> sd \<le> end_date b))
   \<and> (is_available s l sd ed \<longrightarrow>
        \<not> (\<exists>b \<in> set (bookings s). property b = listing_id l \<and> active b
              \<and> overlaps (date_range b) (sd, ed)))
   \<and> (sd < ed \<and> (\<exists>b \<in> set (bookings s). property b = listing_id l \<and> active b
                      \<and> start_date b < end_date b \<and> end_date b = sd)
        \<longrightarrow> \<not> is_available s l sd ed)"
proof (intro conjI impI)
  show "is_available s l sd ed \<longleftrightarrow>
     \<not> (\<exists>b \<in> set (bookings s). property b = listing_id l \<and> active b
           \<and> start_date b \<le> ed \<and> sd \<le> end_date b)"
    by (rule is_available_iff)
next
  assume "is_available s l sd ed"
  then show "\<not> (\<exists>b \<in> set (bookings s). property b = listing_id l \<and> active b
              \<and> overlaps (date_range b) (sd, ed))"
    using closed_of_overlaps by (auto simp: is_available_iff)
next
  assume a: "sd < ed \<and> (\<exists>b \<in> set (bookings s). property b = listing_id l \<and> active b
                      \<and> start_date b < end_date b \<and> end_date b = sd)"
  then obtain b where b: "b \<in> set (bookings s)" "property b = listing_id l" "active b"
      "start_date b < end_date b" "end_date b = sd" by blast
  from a b have "start_date b \<le> ed \<and> sd \<le> end_date b" by simp
  with b show "\<not> is_available s l sd ed" unfolding is_available_iff by blast
qed

theorem is_available_closed_interval_witness:
  "is_available one_stay_store villa 13 15 \<and> \<not> is_available one_stay_store villa 12 15"
  using is_available_closed_interval [of one_stay_store villa 13 15]
    is_available_closed_interval [of one_stay_store villa 12 15]
  by (simp add: active_def one_stay_store_def villa_def stay_10_12_def)

section \<open>Aggregates\<close>




section \<open>Saving and creating bookings\<close>

lemma booking_save_Inl: "booking_save today s adding b = (Inl e, s') \<Longrightarrow> s' = s"
  by (auto simp: booking_save_def split: sum.splits)

lemma booking_save_Inr:
  "booking_save today s adding b = (Inr u, s') \<Longrightarrow>
     booking_full_clean today s adding b = Inr () \<and> write_booking s adding b = Inr s'"
  by (auto simp: booking_save_def split: sum.splits)


lemma booking_create_Inl: "booking_create today s u d = (Inl e, s') \<Longrightarrow> s' = s"
  by (auto simp: booking_create_def Let_def split: option.splits sum.splits prod.splits
        dest: booking_save_Inl)

lemma booking_create_Inr:
  assumes "booking_create today s u d = (Inr b, s')"
  shows "\<exists>sd ed l p.
           data_start_date d = Some sd \<and> data_end_date d = Some ed \<and> data_property d = Some l
         \<and> b = \<lparr>booking_id = new_id (map booking_id (bookings s)), property = listing_id l,
                user = (case data_user d of None \<Rightarrow> u | Some v \<Rightarrow> v),
                start_date = sd, end_date = ed, total_price = p,
                status = (case data_status d of None \<Rightarrow> Pending | Some st \<Rightarrow> st)\<rparr>
         \<and> calculate_total_price s (b\<lparr>total_price := 0\<rparr>) = Inr p
         \<and> booking_save today s True b = (Inr (), s')"
  using assms
  by (auto simp: booking_create_def Let_def split: option.splits sum.splits prod.splits)

lemma create_booking_Inl: "create_booking today s u d = (Inl e, s') \<Longrightarrow> s' = s"
  by (auto simp: create_booking_def split: sum.splits dest: booking_create_Inl)

lemma find_SomeD: "find P xs = Some x \<Longrightarrow> P x \<and> x \<in> set xs"
  by (induction xs) (auto split: if_splits)


lemma booking_validate_Inr: "booking_validate today s v = Inr v' \<Longrightarrow> v' = v"
  by (auto simp: booking_validate_def split: option.splits if_splits)






section \<open>Updating bookings\<close>

lemma booking_update_Inl: "booking_update today s i d = (Inl e, s') \<Longrightarrow> s' = s"
  by (auto simp: booking_update_def Let_def split: sum.splits prod.splits
        dest: booking_save_Inl)

lemma booking_update_Inr:
  assumes "booking_update today s i d = (Inr b, s')"
  shows "b = i\<lparr>start_date := start_date b, end_date := end_date b, status := status b,
              total_price := total_price b\<rparr>
       \<and> booking_save today s False b = (Inr (), s')"
  using assms
  by (auto simp: booking_update_def Let_def calculate_total_price_def
        split: sum.splits prod.splits option.splits if_splits)

lemma update_booking_Inl: "update_booking today s partial pk d = (Inl e, s') \<Longrightarrow> s' = s"
  by (auto simp: update_booking_def split: sum.splits option.splits dest: booking_update_Inl)

lemma update_booking_Inr:
  assumes "update_booking today s partial pk d = (Inr b, s')"
  shows "\<exists>old v. find (\<lambda>b. booking_id b = pk) (bookings s) = Some old
          \<and> booking_to_internal_value s partial d = Inr v
          \<and> booking_validate today s v = Inr v
          \<and> booking_update today s old v = (Inr b, s')"
  using assms
  by (auto simp: update_booking_def split: sum.splits option.splits
        dest: booking_validate_Inr)


text \<open>
  Claim C4 fails on the code.  With the confirmed stay from day 10 to day 12 as the only
  booking of the listing, a full update that shrinks it to day 10 to day 11 and one that
  keeps its dates are both refused by \<open>booking_validate\<close> with \<open>PropertyUnavailable\<close>,
  because \<open>is_available\<close> counts the stay itself; a partial update with the shrunk dates
  alone passes \<open>booking_validate\<close> and fails in \<open>booking_clean\<close>.  The store is unchanged
  in all three cases.
\<close>

theorem update_booking_rejects_own_dates:
  "update_booking 5 one_stay_store False 1 shrink_request
     = (Inl (ValidationError [PropertyUnavailable]), one_stay_store)
   \<and> update_booking 5 one_stay_store False 1 keep_request
     = (Inl (ValidationError [PropertyUnavailable]), one_stay_store)
   \<and> update_booking 5 one_stay_store True 1
       (shrink_request\<lparr>data_property := None, data_user := None\<rparr>)
     = (Inl AttributeError, one_stay_store)
   \<and> bookings one_stay_store = [stay_10_12]"
  by (simp add: booking_flow_defs villa_def stay_10_12_def one_stay_store_def
      shrink_request_def keep_request_def)



section \<open>No double booking\<close>

lemma map_booking_id_replace:
  "map booking_id (map (\<lambda>r. if booking_id r = booking_id b then b else r) xs)
   = map booking_id xs"
  by (induction xs) auto

lemma write_booking_ids_distinct:
  assumes "ids_distinct s" and "write_booking s adding b = Inr s'"
  shows "ids_distinct s'"
proof (cases "booking_id b \<in> set (map booking_id (bookings s))")
  case True
  with assms have "bookings s'
      = map (\<lambda>r. if booking_id r = booking_id b then b else r) (bookings s)"
    by (auto simp: write_booking_def split: if_splits)
  with assms(1) show ?thesis
    by (simp only: ids_distinct_def map_booking_id_replace)
next
  case False
  with assms have "bookings s' = bookings s @ [b]"
    by (auto simp: write_booking_def)
  with assms(1) False show ?thesis
    by (simp add: ids_distinct_def)
qed

lemma write_booking_rows:
  assumes "write_booking s adding b = Inr s'"
  shows "set (bookings s') \<subseteq> insert b {r \<in> set (bookings s). booking_id r \<noteq> booking_id b}"
proof (cases "booking_id b \<in> set (map booking_id (bookings s))")
  case True
  with assms have "bookings s'
      = map (\<lambda>r. if booking_id r = booking_id b then b else r) (bookings s)"
    by (auto simp: write_booking_def split: if_splits)
  then show ?thesis by auto
next
  case False
  with assms have "bookings s' = bookings s @ [b]"
    by (auto simp: write_booking_def)
  moreover from False have "\<forall>r \<in> set (bookings s). booking_id r \<noteq> booking_id b"
    by (auto simp: image_iff)
  ultimately show ?thesis by auto
qed

lemma booking_full_clean_Inr:
  assumes "booking_full_clean today s adding b = Inr u"
  shows "\<exists>l. listing_id l = property b \<and> is_available s l (start_date b) (end_date b)"
proof -
  from assms have "booking_clean today s adding b = Inr ()"
    by (auto simp: booking_full_clean_def split: sum.splits exn.splits if_splits)
  then show ?thesis
    by (auto simp: booking_clean_def get_property_def split: if_splits option.splits
          dest: find_SomeD)
qed

lemma available_no_overlap:
  assumes "is_available s l (start_date b) (end_date b)" and "listing_id l = property b"
    and "a \<in> set (bookings s)" and "property a = property b" and "active a"
  shows "\<not> overlaps (date_range a) (date_range b) \<and> \<not> overlaps (date_range b) (date_range a)"
proof -
  from assms have "\<not> (start_date a \<le> end_date b \<and> start_date b \<le> end_date a)"
    unfolding is_available_iff by auto
  then show ?thesis by (auto simp: overlaps_def date_range_def)
qed

lemma booking_save_no_double_booking:
  assumes inv: "no_double_booking s" and sv: "booking_save today s adding b = (r, s')"
  shows "no_double_booking s'"
proof (cases r)
  case (Inl e)
  with sv inv show ?thesis by (auto dest: booking_save_Inl)
next
  case (Inr u)
  with sv booking_save_Inr have fc: "booking_full_clean today s adding b = Inr ()"
    and w: "write_booking s adding b = Inr s'" by auto
  from booking_full_clean_Inr [OF fc] obtain l where
    l: "listing_id l = property b" "is_available s l (start_date b) (end_date b)" by blast
  note rows = write_booking_rows [OF w]
  show ?thesis
    unfolding no_double_booking_def
  proof (intro ballI impI)
    fix a c
    assume a: "a \<in> set (bookings s')" and c: "c \<in> set (bookings s')"
      and h: "booking_id a \<noteq> booking_id c \<and> property a = property c \<and> active a \<and> active c"
    from a rows have a': "a = b \<or> (a \<in> set (bookings s) \<and> booking_id a \<noteq> booking_id b)"
      by auto
    from c rows have c': "c = b \<or> (c \<in> set (bookings s) \<and> booking_id c \<noteq> booking_id b)"
      by auto
    from a' c' h consider
        (old) "a \<in> set (bookings s)" "c \<in> set (bookings s)"
      | (left) "a = b" "c \<in> set (bookings s)"
      | (right) "c = b" "a \<in> set (bookings s)"
      by auto
    then show "\<not> overlaps (date_range a) (date_range c)"
    proof cases
      case old
      with inv h show ?thesis unfolding no_double_booking_def by blast
    next
      case left
      with available_no_overlap [OF l(2) l(1), of c] h show ?thesis by auto
    next
      case right
      with available_no_overlap [OF l(2) l(1), of a] h show ?thesis by auto
    qed
  qed
qed

lemma booking_save_consistent:
  assumes "consistent s" and "booking_save today s adding b = (r, s')"
  shows "consistent s'"
proof (cases r)
  case (Inl e)
  with assms show ?thesis by (auto dest: booking_save_Inl)
next
  case (Inr u)
  with assms booking_save_Inr have "write_booking s adding b = Inr s'" by auto
  with assms write_booking_ids_distinct booking_save_no_double_booking show ?thesis
    unfolding consistent_def by blast
qed

lemma create_booking_consistent:
  assumes "consistent s"
  shows "consistent (snd (create_booking today s u d))"
proof (cases "fst (create_booking today s u d)")
  case (Inl e)
  then have "create_booking today s u d = (Inl e, snd (create_booking today s u d))"
    by (metis prod.collapse)
  from create_booking_Inl [OF this] assms show ?thesis by simp
next
  case (Inr b)
  then have c: "create_booking today s u d = (Inr b, snd (create_booking today s u d))"
    by (metis prod.collapse)
  then obtain v where "booking_create today s u v = (Inr b, snd (create_booking today s u d))"
    by (auto simp: create_booking_def split: sum.splits)
  from booking_create_Inr [OF this] assms booking_save_consistent show ?thesis by blast
qed

lemma update_booking_consistent:
  assumes "consistent s"
  shows "consistent (snd (update_booking today s partial pk d))"
proof (cases "fst (update_booking today s partial pk d)")
  case (Inl e)
  then have "update_booking today s partial pk d
      = (Inl e, snd (update_booking today s partial pk d))"
    by (metis prod.collapse)
  from update_booking_Inl [OF this] assms show ?thesis by simp
next
  case (Inr b)
  then have "update_booking today s partial pk d
      = (Inr b, snd (update_booking today s partial pk d))"
    by (metis prod.collapse)
  from update_booking_Inr [OF this] obtain old v where
    "booking_update today s old v = (Inr b, snd (update_booking today s partial pk d))"
    by blast
  from booking_update_Inr [OF this] assms booking_save_consistent show ?thesis by blast
qed

lemma destroy_booking_consistent:
  assumes "consistent s"
  shows "consistent (destroy_booking s pk)"
  using assms
  by (auto simp: consistent_def ids_distinct_def no_double_booking_def destroy_booking_def
        distinct_map_filter)

lemma serve_consistent: "consistent s \<Longrightarrow> consistent (serve s r)"
proof (cases r)
  case (SaveBooking today adding b)
  assume "consistent s"
  with booking_save_consistent [of s today adding b "fst (booking_save today s adding b)"
      "snd (booking_save today s adding b)"]
  show ?thesis using SaveBooking by simp
qed (simp_all add: create_booking_consistent update_booking_consistent
       destroy_booking_consistent)

text \<open>
  Claim C1: a store in which primary keys are unique and no two distinct pending or
  confirmed bookings of one property overlap (the store without bookings is one) is
  still such a store after any sequence of create, update and destroy requests; a
  cancellation is an update that sets the status to canceled.
\<close>

theorem no_double_booking_invariant:
  assumes "consistent s"
  shows "consistent (serve_all s rs)"
  using assms unfolding serve_all_def
  by (induction rs arbitrary: s) (simp_all add: serve_consistent)

theorem no_double_booking_invariant_witness:
  "consistent empty_store \<and> consistent (serve_all empty_store busy_day)
   \<and> map (\<lambda>b. (booking_id b, start_date b, end_date b, status b))
         (bookings (serve_all empty_store busy_day))
       = [(1, 20, 23, Pending), (2, 24, 25, Pending), (3, 26, 28, Confirmed)]"
proof -
  have h: "consistent empty_store"
    by (simp add: consistent_def ids_distinct_def no_double_booking_def empty_store_def)
  have v: "map (\<lambda>b. (booking_id b, start_date b, end_date b, status b))
         (bookings (serve_all empty_store busy_day))
       = [(1, 20, 23, Pending), (2, 24, 25, Pending), (3, 26, 28, Confirmed)]"
    by (simp add: booking_flow_defs villa_def stay_10_12_def empty_store_def
        three_nights_request_def busy_day_def destroy_booking_def serve_all_def)
  from no_double_booking_invariant [OF h] h v show ?thesis by blast
qed

section \<open>Reviews\<close>



















end
